theory Spec2Isabelle
  imports Complex_Main
begin

section \<open>Values, exceptions and HTTP responses\<close>

text \<open>
  The script \<^verbatim>\<open>app.py\<close> is a Streamlit page with three modes. It handles Python values
  in three places: the cells of a pandas table, the JSON payload of a request and the
  decoded JSON body of a response. One datatype covers all three. Numbers are rationals
  (a Python int and every finite float is one); the rounding of float arithmetic is not
  modelled. \<open>PNone\<close> is pandas' missing value: Python's \<^verbatim>\<open>None\<close> and a blank cell read
  back as NaN are both missing to \<^verbatim>\<open>mean\<close> and \<^verbatim>\<open>value_counts\<close>. A dict is the
  association list of its items.
\<close>

datatype pyval =
    PNone
  | PBool bool
  | PNum rat
  | PStr string
  | PList "pyval list"
  | PDict "(string \<times> pyval) list"

text \<open>The exceptions that the modelled statements can raise. None of them is caught
  anywhere in the script, so a raised exception ends the run of the page.\<close>

datatype exn =
    ConnectionError
  | Timeout
  | JSONDecodeError
  | KeyError string
  | TypeError
  | ValueError

text \<open>
  What the script reads of a \<^verbatim>\<open>requests.Response\<close>: \<^verbatim>\<open>resp.status_code\<close>,
  \<^verbatim>\<open>resp.text\<close> and \<^verbatim>\<open>resp.json()\<close>. The decoded body is \<open>None\<close> when the text is
  not JSON, in which case \<^verbatim>\<open>resp.json()\<close> raises.
\<close>

record response =
  status_code :: int
  body_text :: string
  json_body :: "pyval option"

text \<open>
  \<^verbatim>\<open>requests.post(API_URL, json=payload, timeout=10)\<close> either raises (connection
  failure, timeout) or returns a response. The endpoint is outside the program, so the
  client is a parameter: \<open>post i payload\<close> is the outcome of the \<open>i\<close>-th call of a run
  (counted from 0) when it is made with \<open>payload\<close>.
\<close>

datatype post_result = Raises exn | Responds response

type_synonym payload = "(string \<times> pyval) list"

type_synonym client = "nat \<Rightarrow> payload \<Rightarrow> post_result"

text \<open>
  \<^verbatim>\<open>Response.ok\<close> of the requests library: true unless \<^verbatim>\<open>raise_for_status()\<close> raises,
  which it does for a status from 400 up to 599.
\<close>

definition ok :: "response \<Rightarrow> bool" where
  "ok resp = (\<not> (400 \<le> status_code resp \<and> status_code resp < 600))"

definition json :: "response \<Rightarrow> exn + pyval" where
  "json resp = (case json_body resp of None \<Rightarrow> Inl JSONDecodeError | Some out \<Rightarrow> Inr out)"

text \<open>\<^verbatim>\<open>out[key]\<close> with a string key: a lookup in a dict, \<^verbatim>\<open>KeyError\<close> when the key is
  missing, \<^verbatim>\<open>TypeError\<close> when \<open>out\<close> is anything but a dict.\<close>

fun subscript :: "pyval \<Rightarrow> string \<Rightarrow> exn + pyval" where
  "subscript (PDict kvs) k =
     (case map_of kvs k of None \<Rightarrow> Inl (KeyError k) | Some v \<Rightarrow> Inr v)"
| "subscript _ k = Inl TypeError"

text \<open>Python's truth value, used by \<^verbatim>\<open>... if out["will_buy_after_price_increase"] else ...\<close>.\<close>

fun truthy :: "pyval \<Rightarrow> bool" where
  "truthy PNone = False"
| "truthy (PBool b) = b"
| "truthy (PNum x) = (x \<noteq> 0)"
| "truthy (PStr s) = (s \<noteq> [])"
| "truthy (PList vs) = (vs \<noteq> [])"
| "truthy (PDict kvs) = (kvs \<noteq> [])"

text \<open>The format specification \<^verbatim>\<open>{prob:.1%}\<close> accepts a number (a bool is an int) and
  raises for every other value. The model keeps the number, not its rendering.\<close>

fun format_percent :: "pyval \<Rightarrow> exn + rat" where
  "format_percent (PNum x) = Inr x"
| "format_percent (PBool b) = Inr (if b then 1 else 0)"
| "format_percent (PStr s) = Inl ValueError"
| "format_percent _ = Inl TypeError"

section \<open>Mode 1: single-customer prediction\<close>

text \<open>The values the nine input widgets return when the page runs.\<close>

record form =
  total_spent :: rat
  avg_order_value :: rat
  avg_purchase_frequency :: rat
  days_since_last_purchase :: int
  discount_behavior :: rat
  loyalty_program_member :: int
  days_in_advance :: int
  flight_type :: string
  cabin_class :: string

definition single_payload :: "form \<Rightarrow> payload" where
  "single_payload f =
     [(''total_spent'', PNum (total_spent f)),
      (''avg_order_value'', PNum (avg_order_value f)),
      (''avg_purchase_frequency'', PNum (avg_purchase_frequency f)),
      (''days_since_last_purchase'', PNum (of_int (days_since_last_purchase f))),
      (''discount_behavior'', PNum (discount_behavior f)),
      (''loyalty_program_member'', PNum (of_int (loyalty_program_member f))),
      (''days_in_advance'', PNum (of_int (days_in_advance f))),
      (''flight_type'', PStr (flight_type f)),
      (''cabin_class'', PStr (cabin_class f))]"

text \<open>What the page shows after the call: the result line (\<open>True\<close> for the label
  "Likely to continue buying", and the probability), or \<^verbatim>\<open>st.error\<close> with the status and
  the raw text of the response.\<close>

datatype single_page = Markdown bool rat | ApiError int string

text \<open>Lines 57 to 63: the branch on \<^verbatim>\<open>resp.status_code == 200\<close>.\<close>

definition single_response :: "response \<Rightarrow> exn + single_page" where
  "single_response resp =
     (if status_code resp = 200 then
        (case json resp of
           Inl e \<Rightarrow> Inl e
         | Inr out \<Rightarrow>
             (case subscript out ''will_buy_after_price_increase'' of
                Inl e \<Rightarrow> Inl e
              | Inr w \<Rightarrow>
                  (case subscript out ''probability'' of
                     Inl e \<Rightarrow> Inl e
                   | Inr prob \<Rightarrow>
                       (case format_percent prob of
                          Inl e \<Rightarrow> Inl e
                        | Inr p \<Rightarrow> Inr (Markdown (truthy w) p)))))
      else Inr (ApiError (status_code resp) (body_text resp)))"

text \<open>Lines 41 to 63, run when the Predict button is pressed. The first component is
  the list of request bodies that \<^verbatim>\<open>requests.post\<close> is called with.\<close>

definition single_prediction :: "client \<Rightarrow> form \<Rightarrow> payload list \<times> (exn + single_page)" where
  "single_prediction post f =
     (let payload = single_payload f in
      ([payload],
       (case post 0 payload of
          Raises e \<Rightarrow> Inl e
        | Responds resp \<Rightarrow> single_response resp)))"

section \<open>Mode 2: batch prediction\<close>

text \<open>A pandas table as \<^verbatim>\<open>pd.read_excel\<close> returns it: the column labels, and the rows
  in file order, each row holding one cell per column.\<close>

record dataframe =
  columns :: "string list"
  rows :: "pyval list list"

definition rectangular :: "dataframe \<Rightarrow> bool" where
  "rectangular df = list_all (\<lambda>row. length row = length (columns df)) (rows df)"

text \<open>\<^verbatim>\<open>row.to_dict()\<close>: the row's cells under the column labels.\<close>

definition to_dict :: "string list \<Rightarrow> pyval list \<Rightarrow> payload" where
  "to_dict cols row = zip cols row"

text \<open>Lines 83 to 89: the branch on \<^verbatim>\<open>resp.ok\<close>, giving the two values appended to
  \<open>preds\<close> and \<open>probs\<close>.\<close>

definition batch_response :: "response \<Rightarrow> exn + pyval \<times> pyval" where
  "batch_response resp =
     (if ok resp then
        (case json resp of
           Inl e \<Rightarrow> Inl e
         | Inr out \<Rightarrow>
             (case subscript out ''will_buy_after_price_increase'' of
                Inl e \<Rightarrow> Inl e
              | Inr w \<Rightarrow>
                  (case subscript out ''probability'' of
                     Inl e \<Rightarrow> Inl e
                   | Inr prob \<Rightarrow> Inr (w, prob))))
      else Inr (PNone, PNone))"

text \<open>Lines 82 to 89, the body of the loop for one row: the call and the reading of
  its response.\<close>

definition score_row :: "client \<Rightarrow> nat \<Rightarrow> payload \<Rightarrow> exn + pyval \<times> pyval" where
  "score_row post i payload =
     (case post i payload of
        Raises e \<Rightarrow> Inl e
      | Responds resp \<Rightarrow> batch_response resp)"

text \<open>The state of the loop: the request bodies that \<^verbatim>\<open>requests.post\<close> has been called
  with so far (a call that raised included: whether it raised before or after anything
  went over the network is not visible to the script), and the two lists.\<close>

record scoring =
  calls :: "payload list"
  preds :: "pyval list"
  probs :: "pyval list"

text \<open>Lines 80 to 89: \<^verbatim>\<open>for _, row in df.iterrows()\<close>. The second component is the
  exception that ended the loop, if one did.\<close>

fun iterrows :: "client \<Rightarrow> string list \<Rightarrow> nat \<Rightarrow> pyval list list \<Rightarrow> scoring
    \<Rightarrow> scoring \<times> exn option" where
  "iterrows post cols i [] st = (st, None)"
| "iterrows post cols i (row # rest) st =
     (let payload = to_dict cols row;
          st1 = st\<lparr>calls := calls st @ [payload]\<rparr> in
      (case score_row post i payload of
         Inl e \<Rightarrow> (st1, Some e)
       | Inr (w, prob) \<Rightarrow>
           iterrows post cols (Suc i) rest
             (st1\<lparr>preds := preds st1 @ [w], probs := probs st1 @ [prob]\<rparr>)))"

text \<open>\<^verbatim>\<open>df[name] = values\<close>: pandas raises \<^verbatim>\<open>ValueError\<close> unless there is one value
  per row; an existing column is overwritten in place, a new one is appended last.\<close>

definition set_cell :: "string list \<Rightarrow> string \<Rightarrow> pyval \<Rightarrow> pyval list \<Rightarrow> pyval list" where
  "set_cell cols name v row =
     (if name \<in> set cols then map2 (\<lambda>c x. if c = name then v else x) cols row
      else row @ [v])"

definition setitem :: "dataframe \<Rightarrow> string \<Rightarrow> pyval list \<Rightarrow> exn + dataframe" where
  "setitem df name vals =
     (if length vals \<noteq> length (rows df) then Inl ValueError
      else Inr \<lparr>columns = (if name \<in> set (columns df) then columns df
                            else columns df @ [name]),
                rows = map2 (\<lambda>row v. set_cell (columns df) name v row) (rows df) vals\<rparr>)"

text \<open>Lines 77 to 92, run when the button is pressed: the request bodies of the calls
  to \<^verbatim>\<open>requests.post\<close> in call order, and the scored table or the exception that ended
  the run.\<close>

definition batch_prediction :: "client \<Rightarrow> dataframe \<Rightarrow> payload list \<times> (exn + dataframe)" where
  "batch_prediction post df =
     (case iterrows post (columns df) 0 (rows df) \<lparr>calls = [], preds = [], probs = []\<rparr> of
        (st, Some e) \<Rightarrow> (calls st, Inl e)
      | (st, None) \<Rightarrow>
          (calls st,
           (case setitem df ''Prediction'' (preds st) of
              Inl e \<Rightarrow> Inl e
            | Inr df1 \<Rightarrow> setitem df1 ''Probability'' (probs st))))"

section \<open>Mode 3: visual analytics\<close>

text \<open>\<^verbatim>\<open>df[name]\<close> for a label among the columns: that column's cells, in row order.\<close>

definition getitem :: "dataframe \<Rightarrow> string \<Rightarrow> pyval list" where
  "getitem df name =
     map (\<lambda>row. case map_of (zip (columns df) row) name of None \<Rightarrow> PNone | Some v \<Rightarrow> v)
       (rows df)"

definition isna :: "pyval \<Rightarrow> bool" where
  "isna v = (v = PNone)"

text \<open>The number a cell contributes to a sum: a bool counts as 0 or 1, anything that is
  not a number makes the reduction raise \<^verbatim>\<open>TypeError\<close>.\<close>

fun numeric :: "pyval \<Rightarrow> exn + rat" where
  "numeric (PNum x) = Inr x"
| "numeric (PBool b) = Inr (if b then 1 else 0)"
| "numeric _ = Inl TypeError"

text \<open>\<^verbatim>\<open>Series.mean()\<close> with its default \<^verbatim>\<open>skipna=True\<close>, as pandas' \<^verbatim>\<open>nanmean\<close>
  computes it: missing cells are replaced by 0 in the sum, the count is the number of
  cells that are not missing, and the mean is NaN (here \<open>None\<close>) when that count is 0.\<close>

fun nansum :: "pyval list \<Rightarrow> exn + rat" where
  "nansum [] = Inr 0"
| "nansum (v # vs) =
     (case (if isna v then Inr 0 else numeric v) of
        Inl e \<Rightarrow> Inl e
      | Inr x \<Rightarrow> (case nansum vs of Inl e \<Rightarrow> Inl e | Inr s \<Rightarrow> Inr (x + s)))"

definition notna_count :: "pyval list \<Rightarrow> nat" where
  "notna_count vs = length (filter (\<lambda>v. \<not> isna v) vs)"

definition mean :: "pyval list \<Rightarrow> exn + rat option" where
  "mean vs =
     (case nansum vs of
        Inl e \<Rightarrow> Inl e
      | Inr s \<Rightarrow> Inr (if notna_count vs > 0 then Some (s / of_nat (notna_count vs)) else None))"

text \<open>\<^verbatim>\<open>Series.value_counts()\<close> with its defaults \<^verbatim>\<open>dropna=True, sort=True\<close>: the
  missing cells are skipped, each remaining value is counted under its hash key (in Python
  \<^verbatim>\<open>True == 1\<close> and \<^verbatim>\<open>False == 0\<close> with equal hashes, so a bool and the number it
  equals share a key), and the entries are ordered by falling count. A list or a dict cannot
  be hashed.\<close>

fun hash_key :: "pyval \<Rightarrow> exn + pyval" where
  "hash_key (PBool b) = Inr (PNum (if b then 1 else 0))"
| "hash_key (PList vs) = Inl TypeError"
| "hash_key (PDict kvs) = Inl TypeError"
| "hash_key v = Inr v"

fun increment :: "pyval \<Rightarrow> (pyval \<times> nat) list \<Rightarrow> (pyval \<times> nat) list" where
  "increment k [] = [(k, 1)]"
| "increment k ((k', n) # tab) =
     (if k = k' then (k', Suc n) # tab else (k', n) # increment k tab)"

fun count_keys :: "pyval list \<Rightarrow> (pyval \<times> nat) list \<Rightarrow> exn + (pyval \<times> nat) list" where
  "count_keys [] tab = Inr tab"
| "count_keys (v # vs) tab =
     (if isna v then count_keys vs tab
      else (case hash_key v of
              Inl e \<Rightarrow> Inl e
            | Inr k \<Rightarrow> count_keys vs (increment k tab)))"

definition value_counts :: "pyval list \<Rightarrow> exn + (pyval \<times> nat) list" where
  "value_counts vs =
     (case count_keys vs [] of
        Inl e \<Rightarrow> Inl e
      | Inr tab \<Rightarrow> Inr (sort_key (\<lambda>(k, n). - int n) tab))"

text \<open>\<^verbatim>\<open>.rename(index={0: "Stop", 1: "Continue"})\<close>: the labels 0 and 1 are replaced,
  every other label stays.\<close>

definition rename_index :: "(pyval \<times> nat) list \<Rightarrow> (pyval \<times> nat) list" where
  "rename_index tab =
     map (\<lambda>(k, n). (if k = PNum 0 then PStr ''Stop''
                     else if k = PNum 1 then PStr ''Continue'' else k, n)) tab"

text \<open>
  The calls of the analytics page that draw something from the table's data:
  \<^verbatim>\<open>st.write("Preview:", df.head())\<close> (line 120), the histogram of lines 126 to 130
  (\<^verbatim>\<open>plt.figure\<close>, \<^verbatim>\<open>sns.histplot(df["Probability"], bins=20, kde=True)\<close>, the labels,
  \<^verbatim>\<open>st.pyplot\<close>) and \<^verbatim>\<open>st.bar_chart(count_df)\<close> (line 134). They belong to Streamlit,
  matplotlib and seaborn, and each may raise on data it cannot render (a text
  \<open>Probability\<close> column, for one). So they are parameters of the model, as the client is:
  each returns \<open>None\<close>, or the exception it raises.
\<close>

record widgets =
  write_preview :: "dataframe \<Rightarrow> exn option"
  histplot :: "pyval list \<Rightarrow> exn option"
  bar_chart :: "(pyval \<times> nat) list \<Rightarrow> exn option"

text \<open>What the page has drawn: the preview, the metric with the percentage (\<open>None\<close> for
  NaN; the model keeps the number, not the text \<^verbatim>\<open>f"{pct:.2f}%"\<close>), the histogram of a
  column, the bar chart of the counts, or the message of \<^verbatim>\<open>st.error\<close>.\<close>

datatype element =
    Preview dataframe
  | Metric "rat option"
  | Histogram "pyval list"
  | BarChart "(pyval \<times> nat) list"
  | ErrorBox string

text \<open>\<^verbatim>\<open>df.head()\<close>: the first five rows.\<close>

definition head :: "dataframe \<Rightarrow> dataframe" where
  "head df = df\<lparr>rows := take 5 (rows df)\<rparr>"

text \<open>Lines 117 to 136, statement by statement: the elements drawn, in order, and the
  exception that ended the run, if one did. An element is in the list once its call has
  returned.\<close>

definition visual_analytics :: "widgets \<Rightarrow> dataframe \<Rightarrow> element list \<times> exn option" where
  "visual_analytics w df =
     (if {''Prediction'', ''Probability''} \<subseteq> set (columns df) then
        (case write_preview w (head df) of
           Some e \<Rightarrow> ([], Some e)
         | None \<Rightarrow>
        (case mean (getitem df ''Prediction'') of
           Inl e \<Rightarrow> ([Preview (head df)], Some e)
         | Inr m \<Rightarrow>
        (let pct = map_option (\<lambda>x. x * 100) m in
        (case histplot w (getitem df ''Probability'') of
           Some e \<Rightarrow> ([Preview (head df), Metric pct], Some e)
         | None \<Rightarrow>
        (case value_counts (getitem df ''Prediction'') of
           Inl e \<Rightarrow>
             ([Preview (head df), Metric pct, Histogram (getitem df ''Probability'')], Some e)
         | Inr tab \<Rightarrow>
        (let count_df = rename_index tab in
        (case bar_chart w count_df of
           Some e \<Rightarrow>
             ([Preview (head df), Metric pct, Histogram (getitem df ''Probability'')], Some e)
         | None \<Rightarrow>
             ([Preview (head df), Metric pct, Histogram (getitem df ''Probability''),
               BarChart count_df], None))))))))
      else ([ErrorBox ''File must contain 'Prediction' and 'Probability' columns.''], None))"

section \<open>Notions used in the statements\<close>

text \<open>The nine keys of the request body that the single-customer form builds.\<close>

definition customer_keys :: "string list" where
  "customer_keys =
     [''total_spent'', ''avg_order_value'', ''avg_purchase_frequency'',
      ''days_since_last_purchase'', ''discount_behavior'', ''loyalty_program_member'',
      ''days_in_advance'', ''flight_type'', ''cabin_class'']"

text \<open>The outcome of the loop body for each row of a run that starts with call \<open>i\<close>, and
  whether an outcome is a pair of values rather than an exception.\<close>

definition outcomes :: "client \<Rightarrow> string list \<Rightarrow> nat \<Rightarrow> pyval list list
    \<Rightarrow> (exn + pyval \<times> pyval) list" where
  "outcomes post cols i rs =
     map (\<lambda>(k, row). score_row post k (to_dict cols row)) (enumerate i rs)"

definition answered :: "(exn + pyval \<times> pyval) \<Rightarrow> bool" where
  "answered r = (case r of Inl e \<Rightarrow> False | Inr x \<Rightarrow> True)"

text \<open>The count a table of counts holds for a label (0 when the label is missing), the
  cells of a column that are not missing, the number a numeric cell stands for, and the
  columns \<^verbatim>\<open>mean\<close> can reduce: every cell a number, a bool or missing.\<close>

definition count_of :: "(pyval \<times> nat) list \<Rightarrow> pyval \<Rightarrow> nat" where
  "count_of tab k = (case map_of tab k of None \<Rightarrow> 0 | Some n \<Rightarrow> n)"

definition dropna :: "pyval list \<Rightarrow> pyval list" where
  "dropna vs = filter (\<lambda>v. \<not> isna v) vs"

definition number :: "pyval \<Rightarrow> rat" where
  "number v = (case numeric v of Inl e \<Rightarrow> 0 | Inr x \<Rightarrow> x)"

definition is_number :: "pyval \<Rightarrow> bool" where
  "is_number v = (case numeric v of Inl e \<Rightarrow> False | Inr x \<Rightarrow> True)"

definition numbers_or_missing :: "pyval list \<Rightarrow> bool" where
  "numbers_or_missing vs = list_all (\<lambda>v. isna v \<or> is_number v) vs"

section \<open>The loop over the rows\<close>

lemma outcomes_Nil: "outcomes post cols i [] = []"
  by (simp add: outcomes_def)

lemma outcomes_Cons:
  "outcomes post cols i (row # rest) =
     score_row post i (to_dict cols row) # outcomes post cols (Suc i) rest"
  by (simp add: outcomes_def)

lemma length_outcomes: "length (outcomes post cols i rs) = length rs"
  by (simp add: outcomes_def)

lemma nth_outcomes:
  "k < length rs \<Longrightarrow> outcomes post cols i rs ! k = score_row post (i + k) (to_dict cols (rs ! k))"
  by (simp add: outcomes_def nth_enumerate_eq)

lemma iterrows_answered:
  "list_all answered (outcomes post cols i rs) \<Longrightarrow>
   iterrows post cols i rs st =
     (st\<lparr>calls := calls st @ map (to_dict cols) rs,
         preds := preds st @ map (fst \<circ> projr) (outcomes post cols i rs),
         probs := probs st @ map (snd \<circ> projr) (outcomes post cols i rs)\<rparr>, None)"
proof (induction rs arbitrary: i st)
  case Nil
  then show ?case by (simp add: outcomes_Nil)
next
  case (Cons row rest)
  from Cons.prems have a: "answered (score_row post i (to_dict cols row))"
    and rest: "list_all answered (outcomes post cols (Suc i) rest)"
    by (simp_all add: outcomes_Cons)
  from a obtain w prob where r: "score_row post i (to_dict cols row) = Inr (w, prob)"
    by (auto simp: answered_def split: sum.splits)
  show ?case
    using r Cons.IH [OF rest] by (simp add: outcomes_Cons)
qed

lemma iterrows_None:
  "iterrows post cols i rs st = (st', None) \<Longrightarrow> list_all answered (outcomes post cols i rs)"
proof (induction rs arbitrary: i st)
  case Nil
  then show ?case by (simp add: outcomes_Nil)
next
  case (Cons row rest)
  then show ?case
    by (auto simp: outcomes_Cons answered_def Let_def split: sum.splits prod.splits)
qed

lemma iterrows_calls:
  "\<exists>n\<le>length rs. (rs \<noteq> [] \<longrightarrow> 0 < n) \<and>
     calls (fst (iterrows post cols i rs st)) = calls st @ map (to_dict cols) (take n rs)"
proof (induction rs arbitrary: i st)
  case Nil
  then show ?case by simp
next
  case (Cons row rest)
  show ?case
  proof (cases "score_row post i (to_dict cols row)")
    case (Inl e)
    then have "calls (fst (iterrows post cols i (row # rest) st))
        = calls st @ map (to_dict cols) (take 1 (row # rest))"
      by simp
    then show ?thesis
      by (intro exI [of _ 1]) simp
  next
    case (Inr wp)
    obtain w prob where wp: "wp = (w, prob)" by (cases wp)
    let ?st = "st\<lparr>calls := calls st @ [to_dict cols row], preds := preds st @ [w],
      probs := probs st @ [prob]\<rparr>"
    from Cons.IH [of "Suc i" ?st] obtain n where n: "n \<le> length rest"
      and s: "calls (fst (iterrows post cols (Suc i) rest ?st))
          = calls ?st @ map (to_dict cols) (take n rest)"
      by blast
    have "calls (fst (iterrows post cols i (row # rest) st))
        = calls st @ map (to_dict cols) (take (Suc n) (row # rest))"
      using Inr wp s by simp
    with n show ?thesis
      by (intro exI [of _ "Suc n"]) simp
  qed
qed

lemma cell_replace:
  "length cols = length row \<Longrightarrow>
   map_of (zip cols (map2 (\<lambda>c x. if c = name then v else x) cols row)) c =
     (if c = name \<and> name \<in> set cols then Some v else map_of (zip cols row) c)"
  by (induction cols row rule: list_induct2) auto

lemma cell_set_cell:
  assumes "length row = length cols"
  shows "map_of (zip (if name \<in> set cols then cols else cols @ [name])
                   (set_cell cols name v row)) c =
     (if c = name then Some v else map_of (zip cols row) c)"
proof (cases "name \<in> set cols")
  case True
  then show ?thesis
    using assms cell_replace [of cols row name v c] by (simp add: set_cell_def)
next
  case False
  have "fst ` set (zip cols row) = set cols"
    using assms by (metis map_fst_zip set_map)
  with False have none: "map_of (zip cols row) name = None"
    by (simp add: map_of_eq_None_iff)
  have "map_of (zip (cols @ [name]) (row @ [v])) c =
      (if c = name then Some v else map_of (zip cols row) c)"
    using assms none
    by (cases "map_of (zip cols row) c") (auto simp: map_add_def simp del: map_of_zip_is_None)
  with False show ?thesis
    by (simp add: set_cell_def)
qed

lemma setitem_props:
  assumes "rectangular df" and "length vals = length (rows df)"
  shows "\<exists>df1. setitem df name vals = Inr df1
     \<and> rectangular df1
     \<and> length (rows df1) = length (rows df)
     \<and> columns df1 = (if name \<in> set (columns df) then columns df else columns df @ [name])
     \<and> getitem df1 name = vals
     \<and> (\<forall>c. c \<noteq> name \<longrightarrow> getitem df1 c = getitem df c)"
proof -
  let ?cols = "if name \<in> set (columns df) then columns df else columns df @ [name]"
  let ?df1 = "\<lparr>columns = ?cols,
      rows = map2 (\<lambda>row v. set_cell (columns df) name v row) (rows df) vals\<rparr>"
  have len: "\<And>row. row \<in> set (rows df) \<Longrightarrow> length row = length (columns df)"
    using assms(1) by (simp add: rectangular_def list_all_iff)
  have 1: "setitem df name vals = Inr ?df1"
    using assms(2) by (simp add: setitem_def)
  have 2: "rectangular ?df1"
    using len by (auto simp: rectangular_def list_all_iff set_cell_def dest!: set_zip_leftD)
  have 3: "length (rows ?df1) = length (rows df)"
    using assms(2) by simp
  have 4: "getitem ?df1 name = vals"
  proof (rule nth_equalityI)
    show "length (getitem ?df1 name) = length vals"
      using assms(2) by (simp add: getitem_def)
  next
    fix i assume "i < length (getitem ?df1 name)"
    then have i: "i < length (rows df)" "i < length vals"
      using assms(2) by (simp_all add: getitem_def)
    then have "length (rows df ! i) = length (columns df)"
      using len by simp
    then show "getitem ?df1 name ! i = vals ! i"
      using i cell_set_cell [of "rows df ! i" "columns df" name "vals ! i" name]
      by (simp add: getitem_def)
  qed
  have 5: "getitem ?df1 c = getitem df c" if "c \<noteq> name" for c
  proof (rule nth_equalityI)
    show "length (getitem ?df1 c) = length (getitem df c)"
      using assms(2) by (simp add: getitem_def)
  next
    fix i assume "i < length (getitem ?df1 c)"
    then have i: "i < length (rows df)" "i < length vals"
      using assms(2) by (simp_all add: getitem_def)
    then have "length (rows df ! i) = length (columns df)"
      using len by simp
    then show "getitem ?df1 c ! i = getitem df c ! i"
      using i that cell_set_cell [of "rows df ! i" "columns df" name "vals ! i" c]
      by (simp add: getitem_def)
  qed
  from 1 2 3 4 5 show ?thesis
    by (intro exI [of _ ?df1]) simp
qed

section \<open>The scored table\<close>

lemma batch_prediction_answered:
  assumes "rectangular df"
    and "list_all answered (outcomes post (columns df) 0 (rows df))"
  shows "\<exists>df'. batch_prediction post df = (map (to_dict (columns df)) (rows df), Inr df')
     \<and> length (rows df') = length (rows df)
     \<and> getitem df' ''Prediction'' = map (fst \<circ> projr) (outcomes post (columns df) 0 (rows df))
     \<and> getitem df' ''Probability'' = map (snd \<circ> projr) (outcomes post (columns df) 0 (rows df))
     \<and> (\<forall>c. c \<noteq> ''Prediction'' \<and> c \<noteq> ''Probability'' \<longrightarrow> getitem df' c = getitem df c)"
proof -
  let ?outs = "outcomes post (columns df) 0 (rows df)"
  let ?ws = "map (fst \<circ> projr) ?outs"
  let ?ps = "map (snd \<circ> projr) ?outs"
  have loop: "iterrows post (columns df) 0 (rows df) \<lparr>calls = [], preds = [], probs = []\<rparr>
      = (\<lparr>calls = map (to_dict (columns df)) (rows df), preds = ?ws, probs = ?ps\<rparr>, None)"
    using iterrows_answered [OF assms(2)] by simp
  have "length ?ws = length (rows df)"
    by (simp add: length_outcomes)
  from setitem_props [OF assms(1) this, of "''Prediction''"]
  obtain df1 where p1: "setitem df ''Prediction'' ?ws = Inr df1
     \<and> rectangular df1
     \<and> length (rows df1) = length (rows df)
     \<and> columns df1 = (if ''Prediction'' \<in> set (columns df) then columns df
                        else columns df @ [''Prediction''])
     \<and> getitem df1 ''Prediction'' = ?ws
     \<and> (\<forall>c. c \<noteq> ''Prediction'' \<longrightarrow> getitem df1 c = getitem df c)" ..
  then have s1: "setitem df ''Prediction'' ?ws = Inr df1"
    and r1: "rectangular df1" and l1: "length (rows df1) = length (rows df)"
    and g1: "getitem df1 ''Prediction'' = ?ws"
    and o1: "\<And>c. c \<noteq> ''Prediction'' \<Longrightarrow> getitem df1 c = getitem df c"
    by simp_all
  have "length ?ps = length (rows df1)"
    using l1 by (simp add: length_outcomes)
  from setitem_props [OF r1 this, of "''Probability''"]
  obtain df2 where p2: "setitem df1 ''Probability'' ?ps = Inr df2
     \<and> rectangular df2
     \<and> length (rows df2) = length (rows df1)
     \<and> columns df2 = (if ''Probability'' \<in> set (columns df1) then columns df1
                        else columns df1 @ [''Probability''])
     \<and> getitem df2 ''Probability'' = ?ps
     \<and> (\<forall>c. c \<noteq> ''Probability'' \<longrightarrow> getitem df2 c = getitem df1 c)" ..
  then have s2: "setitem df1 ''Probability'' ?ps = Inr df2"
    and l2: "length (rows df2) = length (rows df1)"
    and g2: "getitem df2 ''Probability'' = ?ps"
    and o2: "\<And>c. c \<noteq> ''Probability'' \<Longrightarrow> getitem df2 c = getitem df1 c"
    by simp_all
  have bp: "batch_prediction post df = (map (to_dict (columns df)) (rows df), Inr df2)"
    using loop s1 s2 by (simp add: batch_prediction_def)
  have "getitem df2 ''Prediction'' = ?ws"
    using o2 [of "''Prediction''"] g1 by simp
  moreover have "getitem df2 c = getitem df c"
    if "c \<noteq> ''Prediction'' \<and> c \<noteq> ''Probability''" for c
    using that o1 [of c] o2 [of c] by simp
  ultimately show ?thesis
    using bp l1 l2 g2 by (intro exI [of _ df2]) simp
qed

lemma batch_prediction_Inr:
  assumes "snd (batch_prediction post df) = Inr df'"
  shows "list_all answered (outcomes post (columns df) 0 (rows df))"
proof -
  obtain st e where it: "iterrows post (columns df) 0 (rows df)
      \<lparr>calls = [], preds = [], probs = []\<rparr> = (st, e)"
    by (cases "iterrows post (columns df) 0 (rows df) \<lparr>calls = [], preds = [], probs = []\<rparr>")
  with assms have "e = None"
    by (cases e) (simp_all add: batch_prediction_def)
  with it show ?thesis
    by (simp add: iterrows_None)
qed

lemma answered_score_row:
  "answered (score_row post i p) =
     (\<exists>resp. post i p = Responds resp \<and> answered (batch_response resp))"
  by (cases "post i p") (simp_all add: score_row_def answered_def)

lemma answered_all:
  "list_all answered (outcomes post cols 0 rs) =
     (\<forall>i<length rs. answered (score_row post i (to_dict cols (rs ! i))))"
  using nth_outcomes [of _ rs post cols 0]
  by (simp add: list_all_length length_outcomes)

text \<open>The definitions that evaluate a run on a concrete table and client.\<close>

lemmas run_defs = batch_prediction_def score_row_def batch_response_def ok_def json_def
  to_dict_def setitem_def set_cell_def getitem_def rectangular_def answered_def

text \<open>
  Claim C2. For a rectangular input table the run returns a scored table exactly when every
  call answers (no call raises and every accepted response decodes to an object holding
  both keys). The scored table then has one row per input row, every column other than
  \<open>Prediction\<close> and \<open>Probability\<close> holds the input's cells in the input's order, and the
  \<open>Prediction\<close> and \<open>Probability\<close> cells at index \<open>i\<close> are what the branch on
  \<^verbatim>\<open>resp.ok\<close> reads from the response to the call made with input row \<open>i\<close>.
\<close>

theorem scored_table_rows:
  assumes "rectangular df"
  shows "((\<exists>df'. snd (batch_prediction post df) = Inr df') =
           (\<forall>i<length (rows df).
              answered (score_row post i (to_dict (columns df) (rows df ! i)))))
     \<and> (snd (batch_prediction post df) = Inr df' \<longrightarrow>
          length (rows df') = length (rows df)
          \<and> (\<forall>c. c \<noteq> ''Prediction'' \<and> c \<noteq> ''Probability'' \<longrightarrow> getitem df' c = getitem df c)
          \<and> (\<forall>i<length (rows df). \<exists>resp.
                post i (to_dict (columns df) (rows df ! i)) = Responds resp
                \<and> batch_response resp
                    = Inr (getitem df' ''Prediction'' ! i, getitem df' ''Probability'' ! i)))"
proof (intro conjI impI)
  show "(\<exists>df'. snd (batch_prediction post df) = Inr df') =
      (\<forall>i<length (rows df). answered (score_row post i (to_dict (columns df) (rows df ! i))))"
  proof
    assume "\<exists>df'. snd (batch_prediction post df) = Inr df'"
    then obtain d where "snd (batch_prediction post df) = Inr d" ..
    then have "list_all answered (outcomes post (columns df) 0 (rows df))"
      by (rule batch_prediction_Inr)
    then show "\<forall>i<length (rows df).
        answered (score_row post i (to_dict (columns df) (rows df ! i)))"
      by (simp add: answered_all)
  next
    assume "\<forall>i<length (rows df).
        answered (score_row post i (to_dict (columns df) (rows df ! i)))"
    then have "list_all answered (outcomes post (columns df) 0 (rows df))"
      by (simp add: answered_all)
    from batch_prediction_answered [OF assms this]
    obtain d where "batch_prediction post df = (map (to_dict (columns df)) (rows df), Inr d)"
      by (elim exE conjE)
    then have "snd (batch_prediction post df) = Inr d" by simp
    then show "\<exists>df'. snd (batch_prediction post df) = Inr df'" ..
  qed
next
  assume r: "snd (batch_prediction post df) = Inr df'"
  then have all: "list_all answered (outcomes post (columns df) 0 (rows df))"
    by (rule batch_prediction_Inr)
  from batch_prediction_answered [OF assms all]
  obtain d where d: "batch_prediction post df = (map (to_dict (columns df)) (rows df), Inr d)"
    and dlen: "length (rows d) = length (rows df)"
    and dws: "getitem d ''Prediction'' = map (fst \<circ> projr) (outcomes post (columns df) 0 (rows df))"
    and dps: "getitem d ''Probability'' = map (snd \<circ> projr) (outcomes post (columns df) 0 (rows df))"
    and dother: "\<forall>c. c \<noteq> ''Prediction'' \<and> c \<noteq> ''Probability'' \<longrightarrow> getitem d c = getitem df c"
    by (elim exE conjE)
  from d r have eq: "d = df'" by simp
  have len: "length (rows df') = length (rows df)"
    and ws: "getitem df' ''Prediction'' = map (fst \<circ> projr) (outcomes post (columns df) 0 (rows df))"
    and ps: "getitem df' ''Probability'' = map (snd \<circ> projr) (outcomes post (columns df) 0 (rows df))"
    and other: "\<forall>c. c \<noteq> ''Prediction'' \<and> c \<noteq> ''Probability'' \<longrightarrow> getitem df' c = getitem df c"
    using dlen dws dps dother unfolding eq by blast+
  show "length (rows df') = length (rows df)" by (rule len)
  show "\<forall>c. c \<noteq> ''Prediction'' \<and> c \<noteq> ''Probability'' \<longrightarrow> getitem df' c = getitem df c"
    by (rule other)
  show "\<forall>i<length (rows df). \<exists>resp.
      post i (to_dict (columns df) (rows df ! i)) = Responds resp
      \<and> batch_response resp = Inr (getitem df' ''Prediction'' ! i, getitem df' ''Probability'' ! i)"
  proof (intro allI impI)
    fix i assume i: "i < length (rows df)"
    let ?p = "to_dict (columns df) (rows df ! i)"
    have "answered (score_row post i ?p)"
      using all i by (simp add: answered_all)
    then obtain resp where resp: "post i ?p = Responds resp"
      and a: "answered (batch_response resp)"
      by (auto simp: answered_score_row)
    have "outcomes post (columns df) 0 (rows df) ! i = batch_response resp"
      using i resp by (simp add: nth_outcomes score_row_def)
    then have "batch_response resp
        = Inr (getitem df' ''Prediction'' ! i, getitem df' ''Probability'' ! i)"
      using a i by (auto simp: ws ps length_outcomes answered_def split: sum.splits)
    with resp show "\<exists>resp. post i ?p = Responds resp
      \<and> batch_response resp = Inr (getitem df' ''Prediction'' ! i, getitem df' ''Probability'' ! i)"
      by blast
  qed
qed

theorem scored_table_rows_witness:
  "rectangular \<lparr>columns = [''total_spent'', ''flight_type''],
      rows = [[PNum 120, PStr ''domestic''], [PNum 80, PStr ''international'']]\<rparr>
   \<and> snd (batch_prediction
        (\<lambda>i p. if i = 0
           then Responds \<lparr>status_code = 200, body_text = ''{will_buy: true, probability: 0.8}'',
                  json_body = Some (PDict [(''will_buy_after_price_increase'', PBool True),
                                           (''probability'', PNum (4 / 5))])\<rparr>
           else Responds \<lparr>status_code = 500, body_text = ''Internal Server Error'',
                  json_body = None\<rparr>)
        \<lparr>columns = [''total_spent'', ''flight_type''],
         rows = [[PNum 120, PStr ''domestic''], [PNum 80, PStr ''international'']]\<rparr>)
     = Inr \<lparr>columns = [''total_spent'', ''flight_type'', ''Prediction'', ''Probability''],
            rows = [[PNum 120, PStr ''domestic'', PBool True, PNum (4 / 5)],
                    [PNum 80, PStr ''international'', PNone, PNone]]\<rparr>
   \<and> length (rows \<lparr>columns = [''total_spent'', ''flight_type'', ''Prediction'', ''Probability''],
            rows = [[PNum 120, PStr ''domestic'', PBool True, PNum (4 / 5)],
                    [PNum 80, PStr ''international'', PNone, PNone]]\<rparr>) = 2"
  using scored_table_rows [of
      "\<lparr>columns = [''total_spent'', ''flight_type''],
        rows = [[PNum 120, PStr ''domestic''], [PNum 80, PStr ''international'']]\<rparr>"
      "\<lambda>i p. if i = 0
           then Responds \<lparr>status_code = 200, body_text = ''{will_buy: true, probability: 0.8}'',
                  json_body = Some (PDict [(''will_buy_after_price_increase'', PBool True),
                                           (''probability'', PNum (4 / 5))])\<rparr>
           else Responds \<lparr>status_code = 500, body_text = ''Internal Server Error'',
                  json_body = None\<rparr>"
      "\<lparr>columns = [''total_spent'', ''flight_type'', ''Prediction'', ''Probability''],
            rows = [[PNum 120, PStr ''domestic'', PBool True, PNum (4 / 5)],
                    [PNum 80, PStr ''international'', PNone, PNone]]\<rparr>"]
  by (simp add: run_defs)

lemma fst_batch_prediction:
  "fst (batch_prediction post df) =
     calls (fst (iterrows post (columns df) 0 (rows df) \<lparr>calls = [], preds = [], probs = []\<rparr>))"
  by (simp add: batch_prediction_def split: prod.splits option.splits)

lemma keys_to_dict: "length row = length cols \<Longrightarrow> map fst (to_dict cols row) = cols"
  by (simp add: to_dict_def)

text \<open>
  Claim C1 as stated fails for a failure that is an exception. The call is not inside any
  \<^verbatim>\<open>try\<close>: when the second of three calls times out, the run ends with the exception,
  no table is produced and the third row is never posted.
\<close>

theorem network_error_aborts_batch:
  "batch_prediction
     (\<lambda>i p. if i = 1 then Raises Timeout
        else Responds \<lparr>status_code = 200, body_text = ''{will_buy: true, probability: 0.8}'',
               json_body = Some (PDict [(''will_buy_after_price_increase'', PBool True),
                                        (''probability'', PNum (4 / 5))])\<rparr>)
     \<lparr>columns = [''total_spent''], rows = [[PNum 120], [PNum 80], [PNum 50]]\<rparr>
   = ([[(''total_spent'', PNum 120)], [(''total_spent'', PNum 80)]], Inl Timeout)"
  by (simp add: run_defs)

text \<open>
  Claim C1, amended. When every call returns a response (none raises) and every accepted
  response decodes to an object holding both keys, the run produces a scored table with
  one row per input row; at each row whose response has an error status (400 to 599) both
  \<open>Prediction\<close> and \<open>Probability\<close> are missing, and at every other row they are the
  values of the response's body. Rows after a failing row are scored all the same.
\<close>

theorem service_failures_leave_absent_cells:
  assumes "rectangular df"
    and "\<forall>i<length (rows df). \<exists>resp.
           post i (to_dict (columns df) (rows df ! i)) = Responds resp
           \<and> answered (batch_response resp)"
  shows "\<exists>df'. snd (batch_prediction post df) = Inr df'
     \<and> length (rows df') = length (rows df)
     \<and> (\<forall>i<length (rows df). \<forall>resp.
           post i (to_dict (columns df) (rows df ! i)) = Responds resp \<longrightarrow>
             (if ok resp
              then batch_response resp
                     = Inr (getitem df' ''Prediction'' ! i, getitem df' ''Probability'' ! i)
              else getitem df' ''Prediction'' ! i = PNone
                     \<and> getitem df' ''Probability'' ! i = PNone))"
proof -
  let ?outs = "outcomes post (columns df) 0 (rows df)"
  have "\<forall>i<length (rows df). answered (score_row post i (to_dict (columns df) (rows df ! i)))"
    using assms(2) by (simp add: answered_score_row)
  then have all: "list_all answered ?outs"
    by (simp add: answered_all)
  from batch_prediction_answered [OF assms(1) all]
  obtain d where d: "batch_prediction post df = (map (to_dict (columns df)) (rows df), Inr d)"
    and len: "length (rows d) = length (rows df)"
    and ws: "getitem d ''Prediction'' = map (fst \<circ> projr) ?outs"
    and ps: "getitem d ''Probability'' = map (snd \<circ> projr) ?outs"
    by (elim exE conjE)
  have cells: "batch_response resp = Inr (getitem d ''Prediction'' ! i, getitem d ''Probability'' ! i)"
    if i: "i < length (rows df)"
      and resp: "post i (to_dict (columns df) (rows df ! i)) = Responds resp" for i resp
  proof -
    have "answered (batch_response resp)"
      using assms(2) i resp by auto
    moreover have "?outs ! i = batch_response resp"
      using i resp by (simp add: nth_outcomes score_row_def)
    ultimately show ?thesis
      using i by (auto simp: ws ps length_outcomes answered_def split: sum.splits)
  qed
  have "if ok resp
        then batch_response resp = Inr (getitem d ''Prediction'' ! i, getitem d ''Probability'' ! i)
        else getitem d ''Prediction'' ! i = PNone \<and> getitem d ''Probability'' ! i = PNone"
    if "i < length (rows df)"
      and "post i (to_dict (columns df) (rows df ! i)) = Responds resp" for i resp
    using cells [OF that] by (auto simp: batch_response_def)
  with d len show ?thesis
    by (intro exI [of _ d]) simp
qed

text \<open>An instance: the second of three calls is answered with status 500, the run still
  scores the third row.\<close>

theorem service_failures_leave_absent_cells_witness:
  "snd (batch_prediction
        (\<lambda>i p. if i = 1
           then Responds \<lparr>status_code = 500, body_text = ''Internal Server Error'',
                  json_body = None\<rparr>
           else Responds \<lparr>status_code = 200, body_text = ''{will_buy: true, probability: 0.8}'',
                  json_body = Some (PDict [(''will_buy_after_price_increase'', PBool True),
                                           (''probability'', PNum (4 / 5))])\<rparr>)
        \<lparr>columns = [''total_spent''], rows = [[PNum 120], [PNum 80], [PNum 50]]\<rparr>)
     = Inr \<lparr>columns = [''total_spent'', ''Prediction'', ''Probability''],
            rows = [[PNum 120, PBool True, PNum (4 / 5)],
                    [PNum 80, PNone, PNone],
                    [PNum 50, PBool True, PNum (4 / 5)]]\<rparr>"
proof -
  let ?post = "\<lambda>(i::nat) (p::payload). if i = 1
           then Responds \<lparr>status_code = 500, body_text = ''Internal Server Error'',
                  json_body = None\<rparr>
           else Responds \<lparr>status_code = 200, body_text = ''{will_buy: true, probability: 0.8}'',
                  json_body = Some (PDict [(''will_buy_after_price_increase'', PBool True),
                                           (''probability'', PNum (4 / 5))])\<rparr>"
  let ?df = "\<lparr>columns = [''total_spent''], rows = [[PNum 120], [PNum 80], [PNum 50]]\<rparr>"
  have rect: "rectangular ?df"
    by (simp add: rectangular_def)
  have resp: "\<forall>i<length (rows ?df). \<exists>resp.
      ?post i (to_dict (columns ?df) (rows ?df ! i)) = Responds resp
      \<and> answered (batch_response resp)"
    by (simp add: run_defs)
  from service_failures_leave_absent_cells [OF rect resp] show ?thesis
    by (simp add: run_defs)
qed

text \<open>
  Claim C3 as stated fails: a table that lacks the column \<open>cabin_class\<close> is not
  refused. Its row is posted with the eight columns it has, the endpoint answers, and a
  scored table is produced.
\<close>

theorem batch_scores_table_lacking_a_column:
  "''cabin_class'' \<notin> set [''total_spent'', ''avg_order_value'', ''avg_purchase_frequency'',
        ''days_since_last_purchase'', ''discount_behavior'', ''loyalty_program_member'',
        ''days_in_advance'', ''flight_type'']
   \<and> batch_prediction
     (\<lambda>i p. Responds \<lparr>status_code = 200, body_text = ''{will_buy: true, probability: 0.8}'',
               json_body = Some (PDict [(''will_buy_after_price_increase'', PBool True),
                                        (''probability'', PNum (4 / 5))])\<rparr>)
     \<lparr>columns = [''total_spent'', ''avg_order_value'', ''avg_purchase_frequency'',
        ''days_since_last_purchase'', ''discount_behavior'', ''loyalty_program_member'',
        ''days_in_advance'', ''flight_type''],
      rows = [[PNum 120, PNum 60, PNum 2, PNum 30, PNum (1 / 5), PNum 1, PNum 14,
               PStr ''domestic'']]\<rparr>
   = ([[(''total_spent'', PNum 120), (''avg_order_value'', PNum 60),
        (''avg_purchase_frequency'', PNum 2), (''days_since_last_purchase'', PNum 30),
        (''discount_behavior'', PNum (1 / 5)), (''loyalty_program_member'', PNum 1),
        (''days_in_advance'', PNum 14), (''flight_type'', PStr ''domestic'')]],
      Inr \<lparr>columns = [''total_spent'', ''avg_order_value'', ''avg_purchase_frequency'',
        ''days_since_last_purchase'', ''discount_behavior'', ''loyalty_program_member'',
        ''days_in_advance'', ''flight_type'', ''Prediction'', ''Probability''],
      rows = [[PNum 120, PNum 60, PNum 2, PNum 30, PNum (1 / 5), PNum 1, PNum 14,
               PStr ''domestic'', PBool True, PNum (4 / 5)]]\<rparr>)"
  by (simp add: run_defs)

text \<open>
  Claim C3, amended. The batch mode has no check of the uploaded table's columns and
  raises no error of its own for a missing column: for any table with at least one row,
  whatever its columns, \<^verbatim>\<open>requests.post\<close> is called for the first row, with the table's own
  columns as the keys of the request body. When every call returns a response (none
  raises) and every accepted response decodes to an object holding both keys,
  \<^verbatim>\<open>requests.post\<close> is called once per row, in row order, and a scored table is produced.
\<close>

theorem calls_made_whatever_the_columns:
  "(rows df \<noteq> [] \<longrightarrow>
      fst (batch_prediction post df) \<noteq> []
      \<and> hd (fst (batch_prediction post df)) = to_dict (columns df) (hd (rows df)))
   \<and> (rectangular df
        \<and> (\<forall>i<length (rows df). \<exists>resp.
              post i (to_dict (columns df) (rows df ! i)) = Responds resp
              \<and> answered (batch_response resp)) \<longrightarrow>
      fst (batch_prediction post df) = map (to_dict (columns df)) (rows df)
      \<and> (\<exists>df'. snd (batch_prediction post df) = Inr df'))"
proof (intro conjI impI)
  assume ne: "rows df \<noteq> []"
  from iterrows_calls [of "rows df" post "columns df" 0 "\<lparr>calls = [], preds = [], probs = []\<rparr>"]
  obtain n where n: "0 < n"
    and s: "fst (batch_prediction post df) = map (to_dict (columns df)) (take n (rows df))"
    using ne by (auto simp: fst_batch_prediction)
  from n ne show "fst (batch_prediction post df) \<noteq> []"
    by (simp add: s)
  from n ne show "hd (fst (batch_prediction post df)) = to_dict (columns df) (hd (rows df))"
    by (cases "rows df"; cases n) (simp_all add: s)
next
  assume a: "rectangular df
      \<and> (\<forall>i<length (rows df). \<exists>resp.
            post i (to_dict (columns df) (rows df ! i)) = Responds resp
            \<and> answered (batch_response resp))"
  then have rect: "rectangular df" ..
  from a have "\<forall>i<length (rows df).
      answered (score_row post i (to_dict (columns df) (rows df ! i)))"
    by (simp add: answered_score_row)
  then have all: "list_all answered (outcomes post (columns df) 0 (rows df))"
    by (simp add: answered_all)
  from batch_prediction_answered [OF rect all]
  obtain d where d: "batch_prediction post df = (map (to_dict (columns df)) (rows df), Inr d)"
    by (elim exE conjE)
  show "fst (batch_prediction post df) = map (to_dict (columns df)) (rows df)"
    by (simp add: d)
  have "snd (batch_prediction post df) = Inr d" by (simp add: d)
  then show "\<exists>df'. snd (batch_prediction post df) = Inr df'" ..
qed

text \<open>An instance: a table with two of the nine columns, whose rows the endpoint rejects
  with status 422. Both rows are passed to \<^verbatim>\<open>requests.post\<close> and answered.\<close>

theorem calls_made_whatever_the_columns_witness:
  "rows \<lparr>columns = [''total_spent'', ''flight_type''],
         rows = [[PNum 120, PStr ''domestic''], [PNum 80, PStr ''international'']]\<rparr> \<noteq> []
   \<and> rectangular \<lparr>columns = [''total_spent'', ''flight_type''],
         rows = [[PNum 120, PStr ''domestic''], [PNum 80, PStr ''international'']]\<rparr>
   \<and> fst (batch_prediction
        (\<lambda>i p. Responds \<lparr>status_code = 422, body_text = ''field required'',
                  json_body = None\<rparr>)
        \<lparr>columns = [''total_spent'', ''flight_type''],
         rows = [[PNum 120, PStr ''domestic''], [PNum 80, PStr ''international'']]\<rparr>)
     = [[(''total_spent'', PNum 120), (''flight_type'', PStr ''domestic'')],
        [(''total_spent'', PNum 80), (''flight_type'', PStr ''international'')]]
   \<and> snd (batch_prediction
        (\<lambda>i p. Responds \<lparr>status_code = 422, body_text = ''field required'',
                  json_body = None\<rparr>)
        \<lparr>columns = [''total_spent'', ''flight_type''],
         rows = [[PNum 120, PStr ''domestic''], [PNum 80, PStr ''international'']]\<rparr>)
     = Inr \<lparr>columns = [''total_spent'', ''flight_type'', ''Prediction'', ''Probability''],
            rows = [[PNum 120, PStr ''domestic'', PNone, PNone],
                    [PNum 80, PStr ''international'', PNone, PNone]]\<rparr>"
  using calls_made_whatever_the_columns [of
      "\<lparr>columns = [''total_spent'', ''flight_type''],
         rows = [[PNum 120, PStr ''domestic''], [PNum 80, PStr ''international'']]\<rparr>"
      "\<lambda>i p. Responds \<lparr>status_code = 422, body_text = ''field required'',
                  json_body = None\<rparr>"]
  by (simp add: run_defs)

text \<open>
  Claim C8 as stated fails in the batch mode: the request body is \<^verbatim>\<open>row.to_dict()\<close>, so
  a table with the columns \<open>total_spent\<close> and \<open>note\<close> is posted with those two keys.
\<close>

theorem batch_body_keys_are_the_columns:
  "fst (batch_prediction
     (\<lambda>i p. Responds \<lparr>status_code = 200, body_text = ''{will_buy: true, probability: 0.8}'',
               json_body = Some (PDict [(''will_buy_after_price_increase'', PBool True),
                                        (''probability'', PNum (4 / 5))])\<rparr>)
     \<lparr>columns = [''total_spent'', ''note''], rows = [[PNum 120, PStr ''vip'']]\<rparr>)
   = [[(''total_spent'', PNum 120), (''note'', PStr ''vip'')]]
   \<and> map fst [(''total_spent'', PNum 120), (''note'', PStr ''vip'')] \<noteq> customer_keys"
  by (simp add: run_defs customer_keys_def)

text \<open>
  Claim C8, amended. The request body of the single-customer mode has exactly the nine
  keys, in the order of \<open>customer_keys\<close>. The keys of every request body of the batch
  mode are exactly the columns of the uploaded table, so they are the nine keys only when
  the table's columns are.
\<close>

theorem request_body_keys:
  "map (map fst) (fst (single_prediction post f)) = [customer_keys]
   \<and> (rectangular df \<longrightarrow> (\<forall>p\<in>set (fst (batch_prediction post df)). map fst p = columns df))"
proof (intro conjI impI ballI)
  show "map (map fst) (fst (single_prediction post f)) = [customer_keys]"
    by (simp add: single_prediction_def single_payload_def customer_keys_def Let_def)
next
  fix p assume rect: "rectangular df" and p: "p \<in> set (fst (batch_prediction post df))"
  from iterrows_calls [of "rows df" post "columns df" 0 "\<lparr>calls = [], preds = [], probs = []\<rparr>"]
  obtain n where "fst (batch_prediction post df) = map (to_dict (columns df)) (take n (rows df))"
    by (auto simp: fst_batch_prediction)
  with p obtain row where row: "row \<in> set (take n (rows df))" and pr: "p = to_dict (columns df) row"
    by auto
  from row have "row \<in> set (rows df)"
    by (rule in_set_takeD)
  with rect have "length row = length (columns df)"
    by (simp add: rectangular_def list_all_iff)
  then show "map fst p = columns df"
    by (simp add: pr keys_to_dict)
qed

text \<open>An instance of both modes.\<close>

theorem request_body_keys_witness:
  "map (map fst) (fst (single_prediction (\<lambda>i p. Raises ConnectionError)
       \<lparr>total_spent = 120, avg_order_value = 60, avg_purchase_frequency = 2,
        days_since_last_purchase = 30, discount_behavior = 1 / 5,
        loyalty_program_member = 1, days_in_advance = 14,
        flight_type = ''domestic'', cabin_class = ''economy''\<rparr>))
     = [[''total_spent'', ''avg_order_value'', ''avg_purchase_frequency'',
         ''days_since_last_purchase'', ''discount_behavior'', ''loyalty_program_member'',
         ''days_in_advance'', ''flight_type'', ''cabin_class'']]
   \<and> rectangular \<lparr>columns = [''total_spent'', ''note''],
        rows = [[PNum 120, PStr ''vip''], [PNum 80, PStr ''new'']]\<rparr>
   \<and> map (map fst) (fst (batch_prediction
        (\<lambda>i p. Responds \<lparr>status_code = 500, body_text = ''Internal Server Error'',
                  json_body = None\<rparr>)
        \<lparr>columns = [''total_spent'', ''note''],
         rows = [[PNum 120, PStr ''vip''], [PNum 80, PStr ''new'']]\<rparr>))
     = [[''total_spent'', ''note''], [''total_spent'', ''note'']]"
  using request_body_keys [of "\<lambda>i p. Raises ConnectionError"
      "\<lparr>total_spent = 120, avg_order_value = 60, avg_purchase_frequency = 2,
        days_since_last_purchase = 30, discount_behavior = 1 / 5,
        loyalty_program_member = 1, days_in_advance = 14,
        flight_type = ''domestic'', cabin_class = ''economy''\<rparr>"
      "\<lparr>columns = [''total_spent'', ''note''],
        rows = [[PNum 120, PStr ''vip''], [PNum 80, PStr ''new'']]\<rparr>"]
  by (simp add: run_defs customer_keys_def single_prediction_def single_payload_def)

text \<open>
  Claim C4 as stated fails: a response with status 201 is an error to the single-customer
  mode and a success to the batch mode, and the batch mode also reads the body of a
  response with status 304.
\<close>

theorem status_201_and_304_split_the_modes:
  "single_response \<lparr>status_code = 201, body_text = ''{will_buy: true, probability: 0.8}'',
       json_body = Some (PDict [(''will_buy_after_price_increase'', PBool True),
                                (''probability'', PNum (4 / 5))])\<rparr>
     = Inr (ApiError 201 ''{will_buy: true, probability: 0.8}'')
   \<and> batch_response \<lparr>status_code = 201, body_text = ''{will_buy: true, probability: 0.8}'',
       json_body = Some (PDict [(''will_buy_after_price_increase'', PBool True),
                                (''probability'', PNum (4 / 5))])\<rparr>
     = Inr (PBool True, PNum (4 / 5))
   \<and> batch_response \<lparr>status_code = 304, body_text = ''{will_buy: true, probability: 0.8}'',
       json_body = Some (PDict [(''will_buy_after_price_increase'', PBool True),
                                (''probability'', PNum (4 / 5))])\<rparr>
     = Inr (PBool True, PNum (4 / 5))"
  by (simp add: single_response_def batch_response_def ok_def json_def)

text \<open>
  Claim C4, amended. The single-customer mode shows the error with the status and the raw
  text of the response exactly when the status is not 200, and shows the result for a
  status of 200 whose body holds the label and a number. The batch mode records two
  missing values (keeping neither status nor text) when the status lies in 400 to 599,
  and for every other status reads the two values from the body.
\<close>

theorem success_criteria:
  "(single_response resp = Inr (ApiError (status_code resp) (body_text resp)))
      = (status_code resp \<noteq> 200)
   \<and> (status_code resp = 200 \<and> json resp = Inr out
        \<and> subscript out ''will_buy_after_price_increase'' = Inr w
        \<and> subscript out ''probability'' = Inr prob \<and> format_percent prob = Inr p \<longrightarrow>
      single_response resp = Inr (Markdown (truthy w) p))
   \<and> ok resp = (status_code resp < 400 \<or> 600 \<le> status_code resp)
   \<and> (\<not> ok resp \<longrightarrow> batch_response resp = Inr (PNone, PNone))
   \<and> (ok resp \<and> json resp = Inr out
        \<and> subscript out ''will_buy_after_price_increase'' = Inr w
        \<and> subscript out ''probability'' = Inr prob \<longrightarrow>
      batch_response resp = Inr (w, prob))"
  by (auto simp: single_response_def batch_response_def ok_def split: sum.splits)

text \<open>An instance: a response with status 200 and one with status 503, in both modes.\<close>

theorem success_criteria_witness:
  "single_response \<lparr>status_code = 200, body_text = ''{will_buy: true, probability: 0.8}'',
       json_body = Some (PDict [(''will_buy_after_price_increase'', PBool True),
                                (''probability'', PNum (4 / 5))])\<rparr>
     = Inr (Markdown True (4 / 5))
   \<and> batch_response \<lparr>status_code = 200, body_text = ''{will_buy: true, probability: 0.8}'',
       json_body = Some (PDict [(''will_buy_after_price_increase'', PBool True),
                                (''probability'', PNum (4 / 5))])\<rparr>
     = Inr (PBool True, PNum (4 / 5))
   \<and> single_response \<lparr>status_code = 503, body_text = ''Service Unavailable'',
       json_body = None\<rparr> = Inr (ApiError 503 ''Service Unavailable'')
   \<and> batch_response \<lparr>status_code = 503, body_text = ''Service Unavailable'',
       json_body = None\<rparr> = Inr (PNone, PNone)"
  using success_criteria [of
      "\<lparr>status_code = 200, body_text = ''{will_buy: true, probability: 0.8}'',
       json_body = Some (PDict [(''will_buy_after_price_increase'', PBool True),
                                (''probability'', PNum (4 / 5))])\<rparr>"
      "PDict [(''will_buy_after_price_increase'', PBool True), (''probability'', PNum (4 / 5))]"
      "PBool True" "PNum (4 / 5)" "4 / 5"]
    success_criteria [of
      "\<lparr>status_code = 503, body_text = ''Service Unavailable'', json_body = None\<rparr>"
      PNone PNone PNone 0]
  by (simp add: ok_def json_def)

section \<open>Mean and counts of a column\<close>

lemma nansum_numeric:
  "\<forall>v\<in>set vs. \<not> isna v \<longrightarrow> numeric v = Inr (f v) \<Longrightarrow>
   nansum vs = Inr (sum_list (map f (filter (\<lambda>v. \<not> isna v) vs)))"
  by (induction vs) auto

lemma nansum_dropna: "nansum (dropna vs) = nansum vs"
  by (induction vs) (auto simp: dropna_def split: sum.splits)

lemma notna_count_dropna: "notna_count (dropna vs) = notna_count vs"
  by (simp add: notna_count_def dropna_def)

lemma mean_dropna: "mean (dropna vs) = mean vs"
  by (simp add: mean_def nansum_dropna notna_count_dropna split: sum.splits)

lemma count_keys_dropna: "count_keys (dropna vs) tab = count_keys vs tab"
  by (induction vs arbitrary: tab) (auto simp: dropna_def split: sum.splits)

lemma value_counts_dropna: "value_counts (dropna vs) = value_counts vs"
  by (simp add: value_counts_def count_keys_dropna)

lemma numeric_hash_key: "numeric v = Inr x \<Longrightarrow> hash_key v = Inr (PNum x)"
  by (cases v) auto

lemma count_keys_numeric:
  "\<forall>v\<in>set vs. \<not> isna v \<longrightarrow> numeric v = Inr (f v) \<Longrightarrow>
   count_keys vs tab = Inr (fold increment (map (\<lambda>v. PNum (f v)) (filter (\<lambda>v. \<not> isna v) vs)) tab)"
  by (induction vs arbitrary: tab) (auto simp: numeric_hash_key)

lemma count_of_Nil: "count_of [] k = 0"
  by (simp add: count_of_def)

lemma count_of_increment: "count_of (increment k tab) k' = count_of tab k' + (if k = k' then 1 else 0)"
  by (induction k tab rule: increment.induct) (auto simp: count_of_def)

lemma count_of_fold_increment: "count_of (fold increment ks tab) k = count_of tab k + count_list ks k"
  by (induction ks arbitrary: tab) (auto simp: count_of_increment)

lemma keys_increment: "fst ` set (increment k tab) = insert k (fst ` set tab)"
  by (induction k tab rule: increment.induct) auto

lemma keys_fold_increment: "fst ` set (fold increment ks tab) = set ks \<union> fst ` set tab"
  by (induction ks arbitrary: tab) (auto simp: keys_increment)

lemma distinct_increment: "distinct (map fst tab) \<Longrightarrow> distinct (map fst (increment k tab))"
  by (induction k tab rule: increment.induct) (auto simp: keys_increment)

lemma distinct_fold_increment:
  "distinct (map fst tab) \<Longrightarrow> distinct (map fst (fold increment ks tab))"
  by (induction ks arbitrary: tab) (auto simp: distinct_increment)

lemma total_increment: "sum_list (map snd (increment k tab)) = Suc (sum_list (map snd tab))"
  by (induction k tab rule: increment.induct) auto

lemma total_fold_increment:
  "sum_list (map snd (fold increment ks tab)) = length ks + sum_list (map snd tab)"
  by (induction ks arbitrary: tab) (auto simp: total_increment)

lemma total_insort:
  "sum_list (map snd (insort_key f x xs)) = (snd x :: nat) + sum_list (map snd xs)"
  by (induction xs) auto

lemma total_sort: "sum_list (map snd (sort_key f xs)) = (sum_list (map snd xs) :: nat)"
  by (induction xs) (auto simp: total_insort)

lemma map_of_insort:
  "fst x \<notin> fst ` set xs \<Longrightarrow> map_of (insort_key f x xs) = map_of (x # xs)"
  by (induction xs) (auto simp: fun_upd_twist)

lemma map_of_sort: "distinct (map fst xs) \<Longrightarrow> map_of (sort_key f xs) = map_of xs"
  by (induction xs) (auto simp: map_of_insort)

lemma total_rename: "sum_list (map snd (rename_index tab)) = sum_list (map snd tab)"
  by (induction tab) (auto simp: rename_index_def)

lemma count_of_rename_stop:
  "\<forall>k\<in>fst ` set tab. \<exists>x. k = PNum x \<Longrightarrow>
   count_of (rename_index tab) (PStr ''Stop'') = count_of tab (PNum 0)"
  by (induction tab) (auto simp: rename_index_def count_of_def split: if_splits)

lemma count_of_rename_continue:
  "\<forall>k\<in>fst ` set tab. \<exists>x. k = PNum x \<Longrightarrow>
   count_of (rename_index tab) (PStr ''Continue'') = count_of tab (PNum 1)"
  by (induction tab) (auto simp: rename_index_def count_of_def split: if_splits)

lemma count_of_sort: "distinct (map fst tab) \<Longrightarrow> count_of (sort_key f tab) k = count_of tab k"
  by (simp add: count_of_def map_of_sort)

lemma numbers_or_missing_number:
  "numbers_or_missing vs \<Longrightarrow> \<forall>v\<in>set vs. \<not> isna v \<longrightarrow> numeric v = Inr (number v)"
  by (auto simp: numbers_or_missing_def list_all_iff number_def is_number_def split: sum.splits)

lemma count_list_filter: "count_list (map g xs) k = length (filter (\<lambda>x. g x = k) xs)"
  by (induction xs) auto

lemma numeric_eq_iff:
  "numbers_or_missing vs \<Longrightarrow>
   filter (\<lambda>v. PNum (number v) = PNum x) (dropna vs) = filter (\<lambda>v. numeric v = Inr x) vs"
  by (induction vs)
    (auto simp: numbers_or_missing_def dropna_def number_def isna_def is_number_def split: sum.splits)

lemma value_counts_numeric:
  assumes "numbers_or_missing vs"
  shows "\<exists>tab. value_counts vs = Inr tab
     \<and> sum_list (map snd tab) = length (dropna vs)
     \<and> (\<forall>k\<in>fst ` set tab. \<exists>x. k = PNum x)
     \<and> (\<forall>x. count_of tab (PNum x) = length (filter (\<lambda>v. numeric v = Inr x) vs))"
proof -
  let ?ks = "map (\<lambda>v. PNum (number v)) (dropna vs)"
  let ?raw = "fold increment ?ks []"
  let ?tab = "sort_key (\<lambda>(k, n). - int n) ?raw"
  have ck: "count_keys vs [] = Inr ?raw"
    using count_keys_numeric [OF numbers_or_missing_number [OF assms], of "[]"]
    by (simp add: dropna_def)
  then have vc: "value_counts vs = Inr ?tab"
    by (simp add: value_counts_def)
  have tot: "sum_list (map snd ?tab) = length (dropna vs)"
    by (simp add: total_sort total_fold_increment)
  have keys: "\<forall>k\<in>fst ` set ?tab. \<exists>x. k = PNum x"
    by (auto simp: keys_fold_increment)
  have dist: "distinct (map fst ?raw)"
    by (rule distinct_fold_increment) simp
  have "count_of ?tab (PNum x) = length (filter (\<lambda>v. numeric v = Inr x) vs)" for x
  proof -
    have "count_of ?tab (PNum x) = count_of ?raw (PNum x)"
      using dist by (rule count_of_sort)
    also have "\<dots> = count_list ?ks (PNum x)"
      by (simp add: count_of_fold_increment count_of_Nil)
    also have "\<dots> = length (filter (\<lambda>v. PNum (number v) = PNum x) (dropna vs))"
      by (rule count_list_filter)
    also have "\<dots> = length (filter (\<lambda>v. numeric v = Inr x) vs)"
      using numeric_eq_iff [OF assms] by simp
    finally show ?thesis .
  qed
  with vc tot keys show ?thesis by blast
qed

lemma mean_numeric:
  assumes "numbers_or_missing vs"
  shows "mean vs =
    Inr (if dropna vs = [] then None
         else Some (sum_list (map number (dropna vs)) / of_nat (length (dropna vs))))"
  using nansum_numeric [OF numbers_or_missing_number [OF assms]]
  by (simp add: mean_def notna_count_def dropna_def)

text \<open>The definitions that evaluate the analytics page on a concrete table.\<close>

lemmas analytics_defs = visual_analytics_def head_def getitem_def mean_def notna_count_def
  isna_def value_counts_def rename_index_def numbers_or_missing_def is_number_def dropna_def
  number_def count_of_def Let_def

text \<open>The page for a table with both columns whose \<open>Prediction\<close> column has a mean and
  counts: what is drawn depends on the three drawing calls only.\<close>

lemma visual_analytics_cases:
  assumes "{''Prediction'', ''Probability''} \<subseteq> set (columns df)"
    and "mean (getitem df ''Prediction'') = Inr m"
    and "value_counts (getitem df ''Prediction'') = Inr tab"
    and "map_option (\<lambda>x. x * 100) m = pct"
    and "rename_index tab = cdf"
  shows "visual_analytics w df =
     (case write_preview w (head df) of
        Some e \<Rightarrow> ([], Some e)
      | None \<Rightarrow>
          (case histplot w (getitem df ''Probability'') of
             Some e \<Rightarrow> ([Preview (head df), Metric pct], Some e)
           | None \<Rightarrow>
               (case bar_chart w cdf of
                  Some e \<Rightarrow>
                    ([Preview (head df), Metric pct, Histogram (getitem df ''Probability'')],
                     Some e)
                | None \<Rightarrow>
                    ([Preview (head df), Metric pct, Histogram (getitem df ''Probability''),
                      BarChart cdf], None))))"
  using assms(1) by (simp add: visual_analytics_def Let_def assms(2-5) split: option.splits)

lemma visual_analytics_page:
  assumes "{''Prediction'', ''Probability''} \<subseteq> set (columns df)"
    and "mean (getitem df ''Prediction'') = Inr m"
    and "value_counts (getitem df ''Prediction'') = Inr tab"
    and "map_option (\<lambda>x. x * 100) m = pct"
    and "rename_index tab = cdf"
  shows "(write_preview w (head df) = None \<and> histplot w (getitem df ''Probability'') = None
           \<and> bar_chart w cdf = None \<longrightarrow>
          visual_analytics w df =
            ([Preview (head df), Metric pct, Histogram (getitem df ''Probability''),
              BarChart cdf], None))
     \<and> (write_preview w (head df) = None \<longrightarrow> Metric pct \<in> set (fst (visual_analytics w df)))
     \<and> (\<forall>x. Metric x \<in> set (fst (visual_analytics w df)) \<longrightarrow> x = pct)
     \<and> (\<forall>t. BarChart t \<in> set (fst (visual_analytics w df)) \<longrightarrow> t = cdf)"
proof (cases "write_preview w (head df)")
  case None
  note wr = this
  show ?thesis
  proof (cases "histplot w (getitem df ''Probability'')")
    case None
    note hi = this
    show ?thesis
    proof (cases "bar_chart w cdf")
      case None
      then show ?thesis
        by (simp add: visual_analytics_cases [OF assms] wr hi)
    next
      case (Some e)
      then show ?thesis
        by (simp add: visual_analytics_cases [OF assms] wr hi)
    qed
  next
    case (Some e)
    then show ?thesis
      by (simp add: visual_analytics_cases [OF assms] wr)
  qed
next
  case (Some e)
  then show ?thesis
    by (simp add: visual_analytics_cases [OF assms])
qed

text \<open>
  Claim C5. For a table with both columns whose \<open>Prediction\<close> column is 1, 1, 0, 1 (each
  1 a number or \<open>True\<close>, the 0 a number or \<open>False\<close>), the mean is 3/4. When the calls that
  draw the preview, the histogram and the bar chart return, the page shows the metric with
  the percentage 75 and the bar chart with the counts \<open>Continue\<close> 3 and \<open>Stop\<close> 1. The
  metric is shown as soon as the preview is drawn, and whatever those calls do, a metric
  the page shows holds 75 and a bar chart it shows holds these counts.
\<close>

theorem summarize_1101:
  assumes "{''Prediction'', ''Probability''} \<subseteq> set (columns df)"
    and "getitem df ''Prediction'' = [a, b, c, d]"
    and "a \<in> {PNum 1, PBool True}" and "b \<in> {PNum 1, PBool True}"
    and "c \<in> {PNum 0, PBool False}" and "d \<in> {PNum 1, PBool True}"
  shows "mean (getitem df ''Prediction'') = Inr (Some (3 / 4))
     \<and> (write_preview w (head df) = None \<and> histplot w (getitem df ''Probability'') = None
           \<and> bar_chart w [(PStr ''Continue'', 3), (PStr ''Stop'', 1)] = None \<longrightarrow>
          visual_analytics w df =
            ([Preview (head df), Metric (Some 75), Histogram (getitem df ''Probability''),
              BarChart [(PStr ''Continue'', 3), (PStr ''Stop'', 1)]], None))
     \<and> (write_preview w (head df) = None \<longrightarrow>
          Metric (Some 75) \<in> set (fst (visual_analytics w df)))
     \<and> (\<forall>x. Metric x \<in> set (fst (visual_analytics w df)) \<longrightarrow> x = Some 75)
     \<and> (\<forall>t. BarChart t \<in> set (fst (visual_analytics w df)) \<longrightarrow>
          t = [(PStr ''Continue'', 3), (PStr ''Stop'', 1)])"
proof -
  have m: "mean (getitem df ''Prediction'') = Inr (Some (3 / 4))"
    using assms(3-6) by (auto simp: assms(2) mean_def notna_count_def isna_def)
  have v: "value_counts (getitem df ''Prediction'') = Inr [(PNum 1, 3), (PNum 0, 1)]"
    using assms(3-6) by (auto simp: assms(2) value_counts_def isna_def)
  have r: "rename_index [(PNum 1, 3), (PNum 0, 1)] = [(PStr ''Continue'', 3), (PStr ''Stop'', 1)]"
    by (simp add: rename_index_def)
  have p: "map_option (\<lambda>x. x * 100) (Some (3 / 4 :: rat)) = Some 75"
    by simp
  from m visual_analytics_page [OF assms(1) m v p r, of w] show ?thesis
    by (rule conjI)
qed

text \<open>An instance, with one extra column, a bool among the predictions and widgets that
  draw everything.\<close>

theorem summarize_1101_witness:
  "visual_analytics
     \<lparr>write_preview = (\<lambda>d. None), histplot = (\<lambda>vs. None), bar_chart = (\<lambda>t. None)\<rparr>
     \<lparr>columns = [''total_spent'', ''Prediction'', ''Probability''],
      rows = [[PNum 120, PNum 1, PNum (9 / 10)], [PNum 80, PBool True, PNum (7 / 10)],
              [PNum 50, PNum 0, PNum (1 / 5)], [PNum 10, PNum 1, PNum (3 / 5)]]\<rparr>
   = ([Preview \<lparr>columns = [''total_spent'', ''Prediction'', ''Probability''],
         rows = [[PNum 120, PNum 1, PNum (9 / 10)], [PNum 80, PBool True, PNum (7 / 10)],
                 [PNum 50, PNum 0, PNum (1 / 5)], [PNum 10, PNum 1, PNum (3 / 5)]]\<rparr>,
       Metric (Some 75),
       Histogram [PNum (9 / 10), PNum (7 / 10), PNum (1 / 5), PNum (3 / 5)],
       BarChart [(PStr ''Continue'', 3), (PStr ''Stop'', 1)]], None)"
  using summarize_1101 [of
      "\<lparr>columns = [''total_spent'', ''Prediction'', ''Probability''],
      rows = [[PNum 120, PNum 1, PNum (9 / 10)], [PNum 80, PBool True, PNum (7 / 10)],
              [PNum 50, PNum 0, PNum (1 / 5)], [PNum 10, PNum 1, PNum (3 / 5)]]\<rparr>"
      "PNum 1" "PBool True" "PNum 0" "PNum 1"
      "\<lparr>write_preview = (\<lambda>d. None), histplot = (\<lambda>vs. None), bar_chart = (\<lambda>t. None)\<rparr>"]
  by (simp add: analytics_defs)

text \<open>
  Claim C6 as stated fails in its last part: with both columns present the summary is not
  always computed. A \<open>Prediction\<close> cell holding text makes \<^verbatim>\<open>mean()\<close> raise
  \<^verbatim>\<open>TypeError\<close> after the preview, even with widgets that draw everything: no metric
  and no chart is shown, and the exception is not the error of the column check.
\<close>

theorem text_prediction_raises:
  "{''Prediction'', ''Probability''}
     \<subseteq> set (columns \<lparr>columns = [''Prediction'', ''Probability''],
                        rows = [[PStr ''yes'', PNum (9 / 10)]]\<rparr>)
   \<and> visual_analytics
        \<lparr>write_preview = (\<lambda>d. None), histplot = (\<lambda>vs. None), bar_chart = (\<lambda>t. None)\<rparr>
        \<lparr>columns = [''Prediction'', ''Probability''],
         rows = [[PStr ''yes'', PNum (9 / 10)]]\<rparr>
     = ([Preview \<lparr>columns = [''Prediction'', ''Probability''],
           rows = [[PStr ''yes'', PNum (9 / 10)]]\<rparr>], Some TypeError)"
  by (simp add: visual_analytics_def head_def getitem_def mean_def isna_def)

text \<open>
  Claim C6, amended. The page shows the error of the column check, and nothing else,
  exactly when the table lacks the \<open>Prediction\<close> or the \<open>Probability\<close> column. When both
  are present that error is never shown, and the whole summary (preview, metric, histogram
  and bar chart) is drawn whenever every \<open>Prediction\<close> cell is a number, a bool or missing
  and the calls that draw the preview, the histogram and the bar chart return.
\<close>

theorem columns_check:
  "((\<exists>msg. ErrorBox msg \<in> set (fst (visual_analytics w df)))
      = (\<not> {''Prediction'', ''Probability''} \<subseteq> set (columns df)))
   \<and> (\<not> {''Prediction'', ''Probability''} \<subseteq> set (columns df) \<longrightarrow>
        visual_analytics w df
          = ([ErrorBox ''File must contain 'Prediction' and 'Probability' columns.''], None))
   \<and> ({''Prediction'', ''Probability''} \<subseteq> set (columns df)
        \<and> numbers_or_missing (getitem df ''Prediction'')
        \<and> write_preview w (head df) = None
        \<and> histplot w (getitem df ''Probability'') = None
        \<and> (\<forall>tab. value_counts (getitem df ''Prediction'') = Inr tab \<longrightarrow>
               bar_chart w (rename_index tab) = None) \<longrightarrow>
        (\<exists>pct cdf. visual_analytics w df =
           ([Preview (head df), Metric pct, Histogram (getitem df ''Probability''),
             BarChart cdf], None)))"
proof (intro conjI impI)
  show "(\<exists>msg. ErrorBox msg \<in> set (fst (visual_analytics w df)))
      = (\<not> {''Prediction'', ''Probability''} \<subseteq> set (columns df))"
    by (auto simp: visual_analytics_def Let_def split: sum.splits option.splits)
next
  assume "\<not> {''Prediction'', ''Probability''} \<subseteq> set (columns df)"
  then show "visual_analytics w df
      = ([ErrorBox ''File must contain 'Prediction' and 'Probability' columns.''], None)"
    by (auto simp: visual_analytics_def)
next
  assume a: "{''Prediction'', ''Probability''} \<subseteq> set (columns df)
      \<and> numbers_or_missing (getitem df ''Prediction'')
      \<and> write_preview w (head df) = None
      \<and> histplot w (getitem df ''Probability'') = None
      \<and> (\<forall>tab. value_counts (getitem df ''Prediction'') = Inr tab \<longrightarrow>
             bar_chart w (rename_index tab) = None)"
  then have cols: "{''Prediction'', ''Probability''} \<subseteq> set (columns df)"
    and num: "numbers_or_missing (getitem df ''Prediction'')"
    and wr: "write_preview w (head df) = None"
    and hi: "histplot w (getitem df ''Probability'') = None"
    and ba: "\<And>tab. value_counts (getitem df ''Prediction'') = Inr tab \<Longrightarrow>
             bar_chart w (rename_index tab) = None"
    by simp_all
  from value_counts_numeric [OF num]
  obtain tab where vc: "value_counts (getitem df ''Prediction'') = Inr tab"
    by (elim exE conjE)
  from visual_analytics_cases [OF cols mean_numeric [OF num] vc refl refl, of w]
  have "visual_analytics w df =
      ([Preview (head df),
        Metric (map_option (\<lambda>x. x * 100)
          (if dropna (getitem df ''Prediction'') = [] then None
           else Some (sum_list (map number (dropna (getitem df ''Prediction'')))
                      / of_nat (length (dropna (getitem df ''Prediction'')))))),
        Histogram (getitem df ''Probability''),
        BarChart (rename_index tab)], None)"
    by (simp add: wr hi ba [OF vc])
  then show "\<exists>pct cdf. visual_analytics w df =
      ([Preview (head df), Metric pct, Histogram (getitem df ''Probability''),
        BarChart cdf], None)"
    by (intro exI)
qed

text \<open>An instance of each branch. In the second table the endpoint gave no prediction for
  the second customer.\<close>

theorem columns_check_witness:
  "visual_analytics
     \<lparr>write_preview = (\<lambda>d. None), histplot = (\<lambda>vs. None), bar_chart = (\<lambda>t. None)\<rparr>
     \<lparr>columns = [''total_spent'', ''Prediction''], rows = [[PNum 120, PNum 1]]\<rparr>
     = ([ErrorBox ''File must contain 'Prediction' and 'Probability' columns.''], None)
   \<and> numbers_or_missing (getitem \<lparr>columns = [''total_spent'', ''Prediction'', ''Probability''],
        rows = [[PNum 120, PBool True, PNum (9 / 10)], [PNum 80, PNone, PNone]]\<rparr>
        ''Prediction'')
   \<and> visual_analytics
        \<lparr>write_preview = (\<lambda>d. None), histplot = (\<lambda>vs. None), bar_chart = (\<lambda>t. None)\<rparr>
        \<lparr>columns = [''total_spent'', ''Prediction'', ''Probability''],
         rows = [[PNum 120, PBool True, PNum (9 / 10)], [PNum 80, PNone, PNone]]\<rparr>
     = ([Preview \<lparr>columns = [''total_spent'', ''Prediction'', ''Probability''],
           rows = [[PNum 120, PBool True, PNum (9 / 10)], [PNum 80, PNone, PNone]]\<rparr>,
         Metric (Some 100), Histogram [PNum (9 / 10), PNone],
         BarChart [(PStr ''Continue'', 1)]], None)"
  using columns_check [of
      "\<lparr>write_preview = (\<lambda>d. None), histplot = (\<lambda>vs. None), bar_chart = (\<lambda>t. None)\<rparr>"
      "\<lparr>columns = [''total_spent'', ''Prediction''], rows = [[PNum 120, PNum 1]]\<rparr>"]
    columns_check [of
      "\<lparr>write_preview = (\<lambda>d. None), histplot = (\<lambda>vs. None), bar_chart = (\<lambda>t. None)\<rparr>"
      "\<lparr>columns = [''total_spent'', ''Prediction'', ''Probability''],
        rows = [[PNum 120, PBool True, PNum (9 / 10)], [PNum 80, PNone, PNone]]\<rparr>"]
  by (simp add: analytics_defs)

text \<open>
  Claim C10. For a table with both columns whose \<open>Prediction\<close> cells are numbers, bools
  or missing, the percentage of the metric is 100 times the sum of the cells that are not
  missing divided by their number (NaN when there is none); the counts of the bar chart
  add up to the number of cells that are not missing; \<open>Stop\<close> counts the cells equal to 0
  or \<open>False\<close> and \<open>Continue\<close> those equal to 1 or \<open>True\<close>, so a missing cell is in no
  count. The page shows both when the calls that draw the preview, the histogram and the
  bar chart return; the metric is shown as soon as the preview is drawn; and whatever
  those calls do, a metric or a bar chart the page shows holds these values.
\<close>

theorem absent_predictions_excluded:
  assumes "{''Prediction'', ''Probability''} \<subseteq> set (columns df)"
    and "numbers_or_missing (getitem df ''Prediction'')"
  shows "\<exists>pct cdf.
       pct = (if dropna (getitem df ''Prediction'') = [] then None
              else Some (sum_list (map number (dropna (getitem df ''Prediction'')))
                         / of_nat (length (dropna (getitem df ''Prediction''))) * 100))
     \<and> sum_list (map snd cdf) = length (dropna (getitem df ''Prediction''))
     \<and> count_of cdf (PStr ''Stop'')
         = length (filter (\<lambda>v. numeric v = Inr 0) (getitem df ''Prediction''))
     \<and> count_of cdf (PStr ''Continue'')
         = length (filter (\<lambda>v. numeric v = Inr 1) (getitem df ''Prediction''))
     \<and> (write_preview w (head df) = None \<and> histplot w (getitem df ''Probability'') = None
           \<and> bar_chart w cdf = None \<longrightarrow>
          visual_analytics w df =
            ([Preview (head df), Metric pct, Histogram (getitem df ''Probability''),
              BarChart cdf], None))
     \<and> (write_preview w (head df) = None \<longrightarrow> Metric pct \<in> set (fst (visual_analytics w df)))
     \<and> (\<forall>x. Metric x \<in> set (fst (visual_analytics w df)) \<longrightarrow> x = pct)
     \<and> (\<forall>t. BarChart t \<in> set (fst (visual_analytics w df)) \<longrightarrow> t = cdf)"
proof -
  let ?vs = "getitem df ''Prediction''"
  let ?pct = "if dropna ?vs = [] then None
      else Some (sum_list (map number (dropna ?vs)) / of_nat (length (dropna ?vs)) * 100)"
  obtain tab where vc: "value_counts ?vs = Inr tab"
    and tot: "sum_list (map snd tab) = length (dropna ?vs)"
    and keys: "\<forall>k\<in>fst ` set tab. \<exists>x. k = PNum x"
    and cnts: "\<And>x. count_of tab (PNum x) = length (filter (\<lambda>v. numeric v = Inr x) ?vs)"
    using value_counts_numeric [OF assms(2)] by blast
  have pct: "map_option (\<lambda>x. x * 100)
      (if dropna ?vs = [] then None
       else Some (sum_list (map number (dropna ?vs)) / of_nat (length (dropna ?vs)))) = ?pct"
    by simp
  have f1: "sum_list (map snd (rename_index tab)) = length (dropna ?vs)"
    by (simp add: total_rename tot)
  have f2: "count_of (rename_index tab) (PStr ''Stop'')
      = length (filter (\<lambda>v. numeric v = Inr 0) ?vs)"
    by (simp add: count_of_rename_stop [OF keys] cnts)
  have f3: "count_of (rename_index tab) (PStr ''Continue'')
      = length (filter (\<lambda>v. numeric v = Inr 1) ?vs)"
    by (simp add: count_of_rename_continue [OF keys] cnts)
  note page = visual_analytics_page [OF assms(1) mean_numeric [OF assms(2)] vc pct refl, of w]
  show ?thesis
    by (intro exI [of _ ?pct] exI [of _ "rename_index tab"] conjI refl f1 f2 f3
        page [THEN conjunct1] page [THEN conjunct2, THEN conjunct1]
        page [THEN conjunct2, THEN conjunct2, THEN conjunct1]
        page [THEN conjunct2, THEN conjunct2, THEN conjunct2])
qed

text \<open>An instance: four customers, one of them without a prediction. The percentage is 2
  of 3, not 2 of 4, and the customer without a prediction is in neither count.\<close>

theorem absent_predictions_excluded_witness:
  "numbers_or_missing (getitem \<lparr>columns = [''total_spent'', ''Prediction'', ''Probability''],
        rows = [[PNum 120, PBool True, PNum (9 / 10)], [PNum 80, PNone, PNone],
                [PNum 50, PNum 0, PNum (1 / 5)], [PNum 10, PNum 1, PNum (7 / 10)]]\<rparr>
        ''Prediction'')
   \<and> visual_analytics
        \<lparr>write_preview = (\<lambda>d. None), histplot = (\<lambda>vs. None), bar_chart = (\<lambda>t. None)\<rparr>
        \<lparr>columns = [''total_spent'', ''Prediction'', ''Probability''],
         rows = [[PNum 120, PBool True, PNum (9 / 10)], [PNum 80, PNone, PNone],
                 [PNum 50, PNum 0, PNum (1 / 5)], [PNum 10, PNum 1, PNum (7 / 10)]]\<rparr>
     = ([Preview \<lparr>columns = [''total_spent'', ''Prediction'', ''Probability''],
           rows = [[PNum 120, PBool True, PNum (9 / 10)], [PNum 80, PNone, PNone],
                   [PNum 50, PNum 0, PNum (1 / 5)], [PNum 10, PNum 1, PNum (7 / 10)]]\<rparr>,
         Metric (Some (200 / 3)),
         Histogram [PNum (9 / 10), PNone, PNum (1 / 5), PNum (7 / 10)],
         BarChart [(PStr ''Continue'', 2), (PStr ''Stop'', 1)]], None)"
  using absent_predictions_excluded [of
      "\<lparr>columns = [''total_spent'', ''Prediction'', ''Probability''],
        rows = [[PNum 120, PBool True, PNum (9 / 10)], [PNum 80, PNone, PNone],
                [PNum 50, PNum 0, PNum (1 / 5)], [PNum 10, PNum 1, PNum (7 / 10)]]\<rparr>"
      "\<lparr>write_preview = (\<lambda>d. None), histplot = (\<lambda>vs. None), bar_chart = (\<lambda>t. None)\<rparr>"]
  by (simp add: analytics_defs)

end
